theory Spec2Isabelle
  imports Complex_Main
begin

section \<open>The terminal portfolio: data model\<close>

text \<open>
  The repository holds two variants of the same Bubble Tea program. \<^verbatim>\<open>main.go\<close> is the
  plain one; the second source file (its name is not recorded, it is called part 0 here and
  its definitions carry the suffix \<open>_p0\<close>) adds a splash screen, a stopwatch and a footer
  clock. Both share the types below.

  The program is a client of the widget libraries bubbles, bubbletea and lipgloss. Their
  code is not part of the repository. A widget is represented by the part of its state the
  program reads (the items of the list, the target percentage of the progress bar) and an
  opaque remainder of type \<open>'w\<close>; every library operation whose effect the program never
  inspects is a field of the record \<open>libs\<close>, which each function of the model takes as its
  first argument. A theorem stated for all \<open>L\<close> therefore holds whatever those operations do.
\<close>

subsection \<open>Records of the program\<close>

record githubRepo =
  Name :: string
  Description :: string
  HTMLURL :: string

record item =
  title :: string
  description :: string
  url :: string

text \<open>Go's \<^verbatim>\<open>time.Time\<close>, by the fields of its wall-clock reading.\<close>

record Time =
  year :: nat
  month :: nat
  day :: nat
  hour :: nat
  minute :: nat
  second :: nat
  nanosecond :: nat

text \<open>
  Go \<^verbatim>\<open>error\<close> values, as far as the program meets them: the text \<^verbatim>\<open>fmt.Errorf\<close> builds,
  and the \<^verbatim>\<open>*url.Error\<close> in which \<^verbatim>\<open>net/http\<close> wraps every error \<^verbatim>\<open>http.Get\<close> returns
  (operation, URL, cause). \<open>Error\<close> is the method \<^verbatim>\<open>Error()\<close>; \<^verbatim>\<open>url.Error\<close> prints as
  \<^verbatim>\<open>fmt.Sprintf("%s %q: %s", Op, URL, Err)\<close>.
\<close>

datatype error = errorString string | url_Error string string error

definition quoted :: "string \<Rightarrow> string" where
  \<comment> \<open>\<^verbatim>\<open>%q\<close> on a text without quotes, backslashes or control characters\<close>
  "quoted s = CHR 0x22 # s @ [CHR 0x22]"

fun Error :: "error \<Rightarrow> string" where
  "Error (errorString s) = s"
| "Error (url_Error opn u e) = opn @ '' '' @ quoted u @ '': '' @ Error e"

subsection \<open>Messages and commands of the runtime\<close>

text \<open>
  \<^verbatim>\<open>tea.Msg\<close> is an empty interface; \<open>Update\<close> switches on the dynamic type. A key message
  is represented by what \<^verbatim>\<open>msg.String()\<close> returns, an \<^verbatim>\<open>errMsg\<close> by its field (\<open>None\<close> is
  the nil error), a \<^verbatim>\<open>progress.FrameMsg\<close> and every message of another type (mouse events,
  the messages the widgets send to themselves) by an opaque payload.
\<close>

datatype 'w msg =
    KeyMsg string
  | WindowSizeMsg int int
  | tickMsg Time
  | repoMsg "githubRepo list"
  | errMsg "error option"
  | openURLMsg string
  | FrameMsg 'w
  | OtherMsg 'w

text \<open>
  \<^verbatim>\<open>tea.Cmd\<close> is a closure the runtime runs later. A command is represented by the call
  that built it: \<open>cmd_nil\<close> is the nil command, \<open>tickCmd\<close> the 50 ms tick that delivers a
  \<open>tickMsg\<close>, \<open>clockCmd\<close> the one-second tick of part 0, \<open>lib_cmd\<close> a command a widget
  returned.
\<close>

datatype 'w cmd =
    cmd_nil
  | tea_Quit
  | tickCmd
  | clockCmd
  | fetchGitHubRepos
  | openURL string
  | tea_Batch "'w cmd list"
  | lib_cmd 'w

text \<open>The commands a returned command makes the runtime run: a batch runs each member, nil runs nothing.\<close>

fun issued :: "'w cmd \<Rightarrow> 'w cmd list" where
  "issued cmd_nil = []"
| "issued (tea_Batch cs) = concat (map issued cs)"
| "issued tea_Quit = [tea_Quit]"
| "issued tickCmd = [tickCmd]"
| "issued clockCmd = [clockCmd]"
| "issued fetchGitHubRepos = [fetchGitHubRepos]"
| "issued (openURL u) = [openURL u]"
| "issued (lib_cmd c) = [lib_cmd c]"

datatype panic = index_out_of_range | interface_conversion | nil_dereference

subsection \<open>lipgloss styles\<close>

text \<open>
  A style is the list of settings applied to \<^verbatim>\<open>lipgloss.NewStyle()\<close>, in order. Rendering
  is the library's.
\<close>

datatype position = Left | Center | Right

datatype border = NormalBorder | RoundedBorder

datatype setting =
    Bold bool
  | Foreground string
  | AdaptiveForeground string string
  | Background string
  | Padding "int list"
  | PaddingLeft int
  | PaddingRight int
  | PaddingBottom int
  | Margin "int list"
  | MarginTop int
  | SetWidth int
  | SetHeight int
  | Align position
  | AlignVertical position
  | Border border
  | BorderStyle border
  | BorderForeground string
  | BorderBottom bool
  | BorderTop bool

type_synonym style = "setting list"

subsection \<open>Widgets\<close>

record 'w progress_Model =
  targetPercent :: rat
  Width :: int
  spring :: 'w

record 'w list_Model =
  items :: "item list"
  listState :: 'w

record 'w libs =
  Render :: "style \<Rightarrow> string \<Rightarrow> string"
  GetFrameSize :: "style \<Rightarrow> int \<times> int"
  lipgloss_Width :: "string \<Rightarrow> int"
  JoinHorizontal :: "position \<Rightarrow> string list \<Rightarrow> string"
  progress_defaultWidth :: int
  progress_init :: "'w"
  progress_animate :: "rat \<Rightarrow> 'w \<Rightarrow> 'w \<times> 'w"
  progress_frame :: "'w \<Rightarrow> rat \<Rightarrow> 'w \<Rightarrow> 'w \<times> 'w"
  progress_View :: "'w progress_Model \<Rightarrow> string"
  list_init :: "int \<Rightarrow> int \<Rightarrow> 'w"
  list_Index :: "'w \<Rightarrow> int"
  list_CursorUp :: "item list \<Rightarrow> 'w \<Rightarrow> 'w"
  list_CursorDown :: "item list \<Rightarrow> 'w \<Rightarrow> 'w"
  list_SetSize :: "int \<Rightarrow> int \<Rightarrow> item list \<Rightarrow> 'w \<Rightarrow> 'w"
  list_updatePagination :: "item list \<Rightarrow> 'w \<Rightarrow> 'w"
  list_NewStatusMessage :: "string \<Rightarrow> 'w \<Rightarrow> 'w \<times> 'w"
  list_Update :: "'w msg \<Rightarrow> item list \<Rightarrow> 'w \<Rightarrow> 'w \<times> 'w"
  list_View :: "item list \<Rightarrow> 'w \<Rightarrow> string"
  table_New :: "(string \<times> int) list \<Rightarrow> string list list \<Rightarrow> bool \<Rightarrow> int \<Rightarrow> 'w"
  table_MoveUp :: "int \<Rightarrow> 'w \<Rightarrow> 'w"
  table_MoveDown :: "int \<Rightarrow> 'w \<Rightarrow> 'w"
  table_SetWidth :: "int \<Rightarrow> 'w \<Rightarrow> 'w"
  table_SetHeight :: "int \<Rightarrow> 'w \<Rightarrow> 'w"
  table_Update :: "'w msg \<Rightarrow> 'w \<Rightarrow> 'w \<times> 'w"
  table_View :: "'w \<Rightarrow> string"
  stopwatch_New :: "'w"
  stopwatch_Init :: "'w \<Rightarrow> 'w"
  stopwatch_Update :: "'w msg \<Rightarrow> 'w \<Rightarrow> 'w \<times> 'w"
  stopwatch_View :: "'w \<Rightarrow> string"

text \<open>
  The progress bar (bubbles/progress). \<^verbatim>\<open>Percent()\<close> returns the target percentage;
  \<^verbatim>\<open>SetPercent\<close> stores its argument clamped to the interval from 0 to 1 and returns the
  command of the next animation frame; \<^verbatim>\<open>IncrPercent(v)\<close> is \<^verbatim>\<open>SetPercent(Percent() + v)\<close>;
  \<^verbatim>\<open>Update\<close> on a frame message advances the animation and leaves the target alone. The
  percentage is a \<^verbatim>\<open>float64\<close>; the program only ever adds 0.25 to a value between 0 and 1
  and compares with 1.0, where binary floating point is exact, so it is a rational here.
\<close>

definition progress_New :: "'w libs \<Rightarrow> 'w progress_Model" where
  "progress_New L = \<lparr>targetPercent = 0, Width = progress_defaultWidth L, spring = progress_init L\<rparr>"

definition Percent :: "'w progress_Model \<Rightarrow> rat" where
  "Percent p = targetPercent p"

definition SetPercent :: "'w libs \<Rightarrow> rat \<Rightarrow> 'w progress_Model \<Rightarrow> 'w progress_Model \<times> 'w cmd" where
  "SetPercent L v p =
     (case progress_animate L (max 0 (min 1 v)) (spring p) of
        (s, c) \<Rightarrow> (p\<lparr>targetPercent := max 0 (min 1 v), spring := s\<rparr>, lib_cmd c))"

definition IncrPercent :: "'w libs \<Rightarrow> rat \<Rightarrow> 'w progress_Model \<Rightarrow> 'w progress_Model \<times> 'w cmd" where
  "IncrPercent L v p = SetPercent L (Percent p + v) p"

definition progress_Update :: "'w libs \<Rightarrow> 'w \<Rightarrow> 'w progress_Model \<Rightarrow> 'w progress_Model \<times> 'w cmd" where
  "progress_Update L f p =
     (case progress_frame L f (targetPercent p) (spring p) of
        (s, c) \<Rightarrow> (p\<lparr>spring := s\<rparr>, lib_cmd c))"

text \<open>
  The list (bubbles/list), with filtering off as the program sets it. \<^verbatim>\<open>Items()\<close> returns
  what \<^verbatim>\<open>SetItems\<close> stored; \<^verbatim>\<open>SetItems\<close> stores the items and recomputes the pagination,
  without looking at the cursor; \<^verbatim>\<open>Index()\<close> is the position of the cursor in the whole
  list; \<^verbatim>\<open>SelectedItem()\<close> returns nil when the index is negative or not below the number of
  items, and the item at the index otherwise.
\<close>

definition list_New :: "'w libs \<Rightarrow> item list \<Rightarrow> int \<Rightarrow> int \<Rightarrow> 'w list_Model" where
  "list_New L its w h = \<lparr>items = its, listState = list_init L w h\<rparr>"

definition Items :: "'w list_Model \<Rightarrow> item list" where
  "Items l = items l"

definition Index :: "'w libs \<Rightarrow> 'w list_Model \<Rightarrow> int" where
  "Index L l = list_Index L (listState l)"

definition SetItems :: "'w libs \<Rightarrow> item list \<Rightarrow> 'w list_Model \<Rightarrow> 'w list_Model" where
  "SetItems L its l = \<lparr>items = its, listState = list_updatePagination L its (listState l)\<rparr>"

definition SelectedItem :: "'w libs \<Rightarrow> 'w list_Model \<Rightarrow> item option" where
  "SelectedItem L l =
     (let i = Index L l in
      if i < 0 \<or> length (items l) = 0 \<or> int (length (items l)) \<le> i then None
      else Some (items l ! nat i))"

definition CursorUp :: "'w libs \<Rightarrow> 'w list_Model \<Rightarrow> 'w list_Model" where
  "CursorUp L l = l\<lparr>listState := list_CursorUp L (items l) (listState l)\<rparr>"

definition CursorDown :: "'w libs \<Rightarrow> 'w list_Model \<Rightarrow> 'w list_Model" where
  "CursorDown L l = l\<lparr>listState := list_CursorDown L (items l) (listState l)\<rparr>"

definition SetSize :: "'w libs \<Rightarrow> int \<Rightarrow> int \<Rightarrow> 'w list_Model \<Rightarrow> 'w list_Model" where
  "SetSize L w h l = l\<lparr>listState := list_SetSize L w h (items l) (listState l)\<rparr>"

definition NewStatusMessage :: "'w libs \<Rightarrow> string \<Rightarrow> 'w list_Model \<Rightarrow> 'w list_Model \<times> 'w cmd" where
  "NewStatusMessage L s l =
     (case list_NewStatusMessage L s (listState l) of
        (st, c) \<Rightarrow> (l\<lparr>listState := st\<rparr>, lib_cmd c))"

definition list_Model_Update :: "'w libs \<Rightarrow> 'w msg \<Rightarrow> 'w list_Model \<Rightarrow> 'w list_Model \<times> 'w cmd" where
  "list_Model_Update L msg l =
     (case list_Update L msg (items l) (listState l) of
        (st, c) \<Rightarrow> (l\<lparr>listState := st\<rparr>, lib_cmd c))"

subsection \<open>The model of \<^verbatim>\<open>main.go\<close>\<close>

definition padding :: int where
  "padding = 2"

definition maxWidth :: int where
  "maxWidth = 80"

definition appStyle :: style where
  "appStyle = [Padding [1, 2]]"

definition statusMessageStyle :: style where
  "statusMessageStyle = [AdaptiveForeground ''#04B575'' ''#04B575'']"

record 'w model =
  cursor :: int
  sections :: "string list"
  loading :: bool
  progress :: "'w progress_Model"
  page :: string
  loaded :: bool
  reposList :: "'w list_Model"
  skillsTable :: 'w
  errorMsg :: string

definition initializeSkillsTable :: "'w libs \<Rightarrow> 'w" where
  "initializeSkillsTable L =
     table_New L
       [(''Category'', 25), (''Skills'', 50)]
       [[''Programming Languages'', ''Python, JavaScript, TypeScript, Dart, PHP''],
        [''Mobile Development'', ''Flutter, React Native''],
        [''Software Development'', ''Electron''],
        [''Web Development'', ''React, Symfony, VueJS, NextJS, NodeJS''],
        [''Databases'', ''MySQL, MongoDB, Microsoft SQL Server''],
        [''Game Engine'', ''Unity'']]
       True 10"

definition initialModel :: "'w libs \<Rightarrow> 'w model" where
  "initialModel L =
     \<lparr>cursor = 0,
      sections = [''About Me'', ''Education'', ''Experience'', ''Skills'', ''Projects'',
                  ''Contact'', ''Exit''],
      loading = False,
      progress = progress_New L,
      page = ''menu'',
      loaded = False,
      reposList = list_New L [] maxWidth 20,
      skillsTable = initializeSkillsTable L,
      errorMsg = []\<rparr>"

text \<open>The loop of the \<^verbatim>\<open>repoMsg\<close> case: one item appended per repository, in order.\<close>

fun repo_items :: "item list \<Rightarrow> githubRepo list \<Rightarrow> item list" where
  "repo_items acc [] = acc"
| "repo_items acc (repo # repos) =
     repo_items (acc @ [\<lparr>title = Name repo, description = Description repo, url = HTMLURL repo\<rparr>]) repos"

text \<open>
  The end of \<open>Update\<close> (\<^verbatim>\<open>main.go\<close> lines 338 to 352), reached by every case that does
  not return: the message goes to the widget of the current page.
\<close>

definition update_page :: "'w libs \<Rightarrow> 'w model \<Rightarrow> 'w msg \<Rightarrow> panic + 'w model \<times> 'w cmd" where
  "update_page L m msg =
     (if page m = ''Projects'' then
        (case list_Model_Update L msg (reposList m) of
           (l, c) \<Rightarrow> Inr (m\<lparr>reposList := l\<rparr>, c))
      else if page m = ''Skills'' then
        (case table_Update L msg (skillsTable m) of
           (t, c) \<Rightarrow> Inr (m\<lparr>skillsTable := t\<rparr>, lib_cmd c))
      else Inr (m, cmd_nil))"

text \<open>
  The cases of the type switch in \<open>Update\<close>. The key switch and the cases of \<open>tickMsg\<close>,
  \<open>repoMsg\<close>, \<open>errMsg\<close> and \<open>progress.FrameMsg\<close> are the same text in both files
  (\<^verbatim>\<open>main.go\<close> lines 235 to 288 and 300 to 335, part 0 lines 277 to 330 and 350 to 385), so
  each is one function on the fields the two models share. In \<open>on_key\<close> the argument
  \<open>rest\<close> is the end of \<open>Update\<close>, where a case of the switch that does not return
  continues.
\<close>

definition on_key ::
  "'w libs \<Rightarrow> (('w, 'z) model_scheme \<Rightarrow> panic + ('w, 'z) model_scheme \<times> 'w cmd)
     \<Rightarrow> ('w, 'z) model_scheme \<Rightarrow> string \<Rightarrow> panic + ('w, 'z) model_scheme \<times> 'w cmd" where
  "on_key L rest m k =
     (if k = ''q'' then Inr (m, tea_Quit)
      else if k = ''up'' \<or> k = ''k'' then
        rest
          (if page m = ''menu'' then (if cursor m > 0 then m\<lparr>cursor := cursor m - 1\<rparr> else m)
           else if page m = ''Projects'' then m\<lparr>reposList := CursorUp L (reposList m)\<rparr>
           else if page m = ''Skills'' then m\<lparr>skillsTable := table_MoveUp L 1 (skillsTable m)\<rparr>
           else m)
      else if k = ''down'' \<or> k = ''j'' then
        rest
          (if page m = ''menu'' then
             (if cursor m < int (length (sections m)) - 1 then m\<lparr>cursor := cursor m + 1\<rparr> else m)
           else if page m = ''Projects'' then m\<lparr>reposList := CursorDown L (reposList m)\<rparr>
           else if page m = ''Skills'' then m\<lparr>skillsTable := table_MoveDown L 1 (skillsTable m)\<rparr>
           else m)
      else if k = ''enter'' then
        (if page m = ''menu'' then
           (if cursor m < 0 \<or> int (length (sections m)) \<le> cursor m then Inl index_out_of_range
            else if sections m ! nat (cursor m) = ''Exit'' then Inr (m, tea_Quit)
            else
              (let m1 = m\<lparr>loading := True, page := sections m ! nat (cursor m),
                           loaded := False, progress := progress_New L\<rparr>
               in if page m1 = ''Projects'' then Inr (m1, fetchGitHubRepos)
                  else Inr (m1, tickCmd)))
         else if page m = ''Projects'' \<and> loaded m then
           (if length (Items (reposList m)) > 0 then
              (case SelectedItem L (reposList m) of
                 None \<Rightarrow> Inl interface_conversion
               | Some selected \<Rightarrow>
                   if url selected \<noteq> [] then Inr (m, openURL (url selected))
                   else rest m)
            else rest m)
         else rest m)
      else if k = ''b'' then
        rest (if page m \<noteq> ''menu'' then m\<lparr>page := ''menu'', cursor := 0, loaded := False\<rparr> else m)
      else rest m)"

definition on_tick ::
  "'w libs \<Rightarrow> ('w, 'z) model_scheme \<Rightarrow> panic + ('w, 'z) model_scheme \<times> 'w cmd" where
  "on_tick L m =
     (if Percent (progress m) = 1 then Inr (m\<lparr>loading := False, loaded := True\<rparr>, cmd_nil)
      else
        (case IncrPercent L (1 / 4) (progress m) of
           (p, c) \<Rightarrow> Inr (m\<lparr>progress := p\<rparr>, tea_Batch [tickCmd, c])))"

definition on_repos ::
  "'w libs \<Rightarrow> ('w, 'z) model_scheme \<Rightarrow> githubRepo list
     \<Rightarrow> panic + ('w, 'z) model_scheme \<times> 'w cmd" where
  "on_repos L m repos =
     (let its = repo_items [] repos;
          m1 = m\<lparr>reposList := SetItems L its (reposList m)\<rparr>;
          m2 = m1\<lparr>loading := False, loaded := True\<rparr>
      in case NewStatusMessage L
                (Render L statusMessageStyle ''Press Enter to open selected project in browser'')
                (reposList m2) of
           (l, statusCmd) \<Rightarrow> Inr (m2\<lparr>reposList := l\<rparr>, statusCmd))"

definition on_err ::
  "('w, 'z) model_scheme \<Rightarrow> error option \<Rightarrow> panic + ('w, 'z) model_scheme \<times> 'w cmd" where
  "on_err m err =
     (case err of
        None \<Rightarrow> Inl nil_dereference
      | Some e \<Rightarrow> Inr (m\<lparr>errorMsg := Error e, loading := False, loaded := True\<rparr>, cmd_nil))"

definition on_frame ::
  "'w libs \<Rightarrow> ('w, 'z) model_scheme \<Rightarrow> 'w \<Rightarrow> panic + ('w, 'z) model_scheme \<times> 'w cmd" where
  "on_frame L m f =
     (case progress_Update L f (progress m) of
        (p, c) \<Rightarrow> Inr (m\<lparr>progress := p\<rparr>, c))"

definition Update :: "'w libs \<Rightarrow> 'w model \<Rightarrow> 'w msg \<Rightarrow> panic + 'w model \<times> 'w cmd" where
  "Update L m msg =
     (case msg of
        KeyMsg k \<Rightarrow> on_key L (\<lambda>m1. update_page L m1 msg) m k
      | WindowSizeMsg w h \<Rightarrow>
          (let pw = w - padding * 2 - 4;
               m1 = m\<lparr>progress := (progress m)\<lparr>Width := (if pw > maxWidth then maxWidth else pw)\<rparr>\<rparr>;
               m2 = (if page m1 = ''Projects'' then
                       (case GetFrameSize L appStyle of
                          (fh, fv) \<Rightarrow> m1\<lparr>reposList := SetSize L (w - fh) (h - fv) (reposList m1)\<rparr>)
                     else m1)
           in Inr (m2, cmd_nil))
      | tickMsg t \<Rightarrow> on_tick L m
      | repoMsg repos \<Rightarrow> on_repos L m repos
      | errMsg err \<Rightarrow> on_err m err
      | openURLMsg u \<Rightarrow> Inr (m, cmd_nil)
      | FrameMsg f \<Rightarrow> on_frame L m f
      | OtherMsg x \<Rightarrow> update_page L m msg)"


definition Init :: "'w libs \<Rightarrow> 'w model \<Rightarrow> 'w cmd" where
  "Init L m = tickCmd"

subsection \<open>The model of part 0\<close>

definition maxWidth_p0 :: int where
  "maxWidth_p0 = 9999"

definition appStyle_p0 :: style where
  "appStyle_p0 = [Padding [1, 2], Align Center]"

record 'w model_p0 = "'w model" +
  width :: int
  height :: int
  showSplash :: bool
  splashTimer :: int
  stopwatch :: 'w

definition initialModel_p0 :: "'w libs \<Rightarrow> 'w model_p0" where
  "initialModel_p0 L =
     \<lparr>cursor = 0,
      sections = [''About Me'', ''Education'', ''Experience'', ''Skills'', ''Projects'',
                  ''Contact'', ''Exit''],
      loading = False,
      progress = progress_New L,
      page = ''menu'',
      loaded = False,
      reposList = list_New L [] maxWidth_p0 20,
      skillsTable = initializeSkillsTable L,
      errorMsg = [],
      width = maxWidth_p0,
      height = 24,
      showSplash = True,
      splashTimer = 20,
      stopwatch = stopwatch_New L\<rparr>"

definition Init_p0 :: "'w libs \<Rightarrow> 'w model_p0 \<Rightarrow> 'w cmd" where
  "Init_p0 L m = tea_Batch [tickCmd, lib_cmd (stopwatch_Init L (stopwatch m))]"

text \<open>
  The end of \<open>Update\<close> in part 0 (lines 388 to 408); \<open>swCmd\<close> is the command the
  stopwatch returned at the start of the call.
\<close>

definition update_page_p0 ::
  "'w libs \<Rightarrow> 'w cmd \<Rightarrow> 'w model_p0 \<Rightarrow> 'w msg \<Rightarrow> panic + 'w model_p0 \<times> 'w cmd" where
  "update_page_p0 L swCmd m msg =
     (if page m = ''Projects'' then
        (case list_Model_Update L msg (reposList m) of
           (l, c) \<Rightarrow> Inr (m\<lparr>reposList := l\<rparr>, tea_Batch [c, swCmd]))
      else if page m = ''Skills'' then
        (case table_Update L msg (skillsTable m) of
           (t, c) \<Rightarrow> Inr (m\<lparr>skillsTable := t\<rparr>, lib_cmd c))
      else Inr (m, tea_Batch [swCmd, clockCmd]))"

text \<open>
  \<open>Update\<close> of part 0: the stopwatch sees every message first; while the splash screen
  shows, the switch of lines 252 to 272 answers; after it, the switch of \<^verbatim>\<open>main.go\<close> with
  another case for the window size and another end.
\<close>

definition on_splash ::
  "'w cmd \<Rightarrow> 'w model_p0 \<Rightarrow> 'w msg \<Rightarrow> panic + 'w model_p0 \<times> 'w cmd" where
  "on_splash swCmd m msg =
     (case msg of
        KeyMsg k \<Rightarrow> Inr (m\<lparr>showSplash := False\<rparr>, cmd_nil)
      | WindowSizeMsg w h \<Rightarrow> Inr (m\<lparr>width := w, height := h\<rparr>, cmd_nil)
      | tickMsg t \<Rightarrow>
          (let m1 = m\<lparr>splashTimer := splashTimer m - 1\<rparr>
           in if splashTimer m1 \<le> 0 then Inr (m1\<lparr>showSplash := False\<rparr>, cmd_nil)
              else Inr (m1, tickCmd))
      | _ \<Rightarrow> Inr (m, tea_Batch [swCmd]))"

definition on_window_p0 ::
  "'w libs \<Rightarrow> 'w model_p0 \<Rightarrow> int \<Rightarrow> int \<Rightarrow> panic + 'w model_p0 \<times> 'w cmd" where
  "on_window_p0 L m w h =
     (let pw = w - padding * 2 - 4;
          m1 = m\<lparr>width := w, height := h\<rparr>;
          m2 = m1\<lparr>progress :=
                    (progress m1)\<lparr>Width := (if pw > maxWidth_p0 then maxWidth_p0 else pw)\<rparr>\<rparr>;
          m3 = (if page m2 = ''Projects'' then
                  (case GetFrameSize L appStyle_p0 of
                     (fh, fv) \<Rightarrow>
                       m2\<lparr>reposList := SetSize L (w - fh) (h - fv - 10) (reposList m2)\<rparr>)
                else m2);
          m4 = (if page m3 = ''Skills'' then
                  m3\<lparr>skillsTable :=
                        table_SetHeight L (h - 15) (table_SetWidth L (w - 20) (skillsTable m3))\<rparr>
                else m3)
      in Inr (m4, cmd_nil))"

definition Update_p0 :: "'w libs \<Rightarrow> 'w model_p0 \<Rightarrow> 'w msg \<Rightarrow> panic + 'w model_p0 \<times> 'w cmd" where
  "Update_p0 L m0 msg =
     (case stopwatch_Update L msg (stopwatch m0) of
        (sw, sc) \<Rightarrow>
          (let m = m0\<lparr>stopwatch := sw\<rparr>; swCmd = lib_cmd sc in
           if showSplash m then on_splash swCmd m msg
           else
             (case msg of
                KeyMsg k \<Rightarrow> on_key L (\<lambda>m1. update_page_p0 L swCmd m1 msg) m k
              | WindowSizeMsg w h \<Rightarrow> on_window_p0 L m w h
              | tickMsg t \<Rightarrow> on_tick L m
              | repoMsg repos \<Rightarrow> on_repos L m repos
              | errMsg err \<Rightarrow> on_err m err
              | openURLMsg u \<Rightarrow> Inr (m, cmd_nil)
              | FrameMsg f \<Rightarrow> on_frame L m f
              | OtherMsg x \<Rightarrow> update_page_p0 L swCmd m msg)))"


subsection \<open>The commands, run\<close>

text \<open>
  What the closure \<^verbatim>\<open>fetchGitHubRepos()\<close> returns delivers, as a function of what the
  network did: \<^verbatim>\<open>http.Get\<close> failed with a cause, or answered with a status code, a status
  text and a body that \<^verbatim>\<open>json.Decode\<close> either rejects with an error or turns into records.
\<close>

datatype decoded = Decode_failed error | Decoded "githubRepo list"

datatype http_outcome = Get_failed error | Responded int string decoded

definition api_url :: string where
  "api_url = ''https://api.github.com/users/mhommet/repos?sort=updated&per_page=100''"

definition StatusOK :: int where
  "StatusOK = 200"

definition run_fetchGitHubRepos :: "http_outcome \<Rightarrow> 'w msg" where
  "run_fetchGitHubRepos out =
     (case out of
        Get_failed cause \<Rightarrow> errMsg (Some (url_Error ''Get'' api_url cause))
      | Responded code status body \<Rightarrow>
          if code \<noteq> StatusOK
          then errMsg (Some (errorString (''failed to fetch repositories: '' @ status)))
          else (case body of
                  Decode_failed e \<Rightarrow> errMsg (Some e)
                | Decoded repos \<Rightarrow> repoMsg repos))"

text \<open>
  What \<^verbatim>\<open>openURL(url)\<close> delivers: \<open>started\<close> is what \<^verbatim>\<open>exec.Command(...).Start()\<close> returned
  in \<^verbatim>\<open>openBrowser\<close>.
\<close>

definition run_openURL :: "string \<Rightarrow> error option \<Rightarrow> 'w msg" where
  "run_openURL u started =
     (case started of
        Some e \<Rightarrow> errMsg (Some e)
      | None \<Rightarrow> openURLMsg u)"

text \<open>The failures the specification names: no answer, an answer outside 2xx, a body that does not decode.\<close>

fun fetch_failure :: "http_outcome \<Rightarrow> bool" where
  "fetch_failure (Get_failed cause) = True"
| "fetch_failure (Responded code status (Decode_failed e)) = True"
| "fetch_failure (Responded code status (Decoded repos)) = (code < 200 \<or> 300 \<le> code)"

subsection \<open>Runs\<close>

text \<open>A sequence of messages applied in order; a panic ends the run.\<close>

fun run :: "('s \<Rightarrow> 'e \<Rightarrow> panic + 's \<times> 'c) \<Rightarrow> 's \<Rightarrow> 'e list \<Rightarrow> panic + 's" where
  "run step s [] = Inr s"
| "run step s (e # es) =
     (case step s e of
        Inl p \<Rightarrow> Inl p
      | Inr (s', c) \<Rightarrow> run step s' es)"

text \<open>The states the program can be in: the initial model, and what \<open>Update\<close> returns from one of them.\<close>

inductive reachable :: "'w libs \<Rightarrow> 'w model \<Rightarrow> bool" for L :: "'w libs" where
  reachable_init: "reachable L (initialModel L)"
| reachable_step: "reachable L m \<Longrightarrow> Update L m msg = Inr (m', c) \<Longrightarrow> reachable L m'"

inductive reachable_p0 :: "'w libs \<Rightarrow> 'w model_p0 \<Rightarrow> bool" for L :: "'w libs" where
  reachable_p0_init: "reachable_p0 L (initialModel_p0 L)"
| reachable_p0_step: "reachable_p0 L m \<Longrightarrow> Update_p0 L m msg = Inr (m', c) \<Longrightarrow> reachable_p0 L m'"

text \<open>The session of the specification: page, cursor, the two flags and the error text.\<close>

definition session :: "('w, 'z) model_scheme \<Rightarrow> string \<times> int \<times> bool \<times> bool \<times> string" where
  "session m = (page m, cursor m, loading m, loaded m, errorMsg m)"

subsection \<open>Rendering\<close>

text \<open>
  Texts are byte strings, as Go's are; a character outside ASCII is written by the bytes of
  its UTF-8 encoding. The listing of part 0 holds the same glyphs in another byte form,
  kept as it is (suffix \<open>_p0\<close>).
\<close>

definition nl :: string where
  "nl = [CHR 0x0A]"

definition arrow_up :: string where
  "arrow_up = [CHR 0xE2, CHR 0x86, CHR 0x91]"

definition arrow_down :: string where
  "arrow_down = [CHR 0xE2, CHR 0x86, CHR 0x93]"

definition bullet :: string where
  "bullet = [CHR 0xE2, CHR 0x80, CHR 0xA2]"

definition company :: string where
  "company = ''T'' @ [CHR 0xC3, CHR 0xA9, CHR 0xC3, CHR 0xAF] @ ''c'' @ [CHR 0xC3, CHR 0xA9] @ ''e''"

definition arrow_up_p0 :: string where
  "arrow_up_p0 = [CHR 0xE2, CHR 0x80, CHR 0x9A, CHR 0xC3, CHR 0x9C, CHR 0xC3, CHR 0xAB]"

definition arrow_down_p0 :: string where
  "arrow_down_p0 = [CHR 0xE2, CHR 0x80, CHR 0x9A, CHR 0xC3, CHR 0x9C, CHR 0xC3, CHR 0xAC]"

definition bullet_p0 :: string where
  "bullet_p0 = [CHR 0xE2, CHR 0x80, CHR 0x9A, CHR 0xC3, CHR 0x84, CHR 0xC2, CHR 0xA2]"

definition company_p0 :: string where
  "company_p0 =
     ''T'' @ [CHR 0xE2, CHR 0x88, CHR 0x9A, CHR 0xC2, CHR 0xA9, CHR 0xE2, CHR 0x88, CHR 0x9A, CHR 0xC3, CHR 0x98]
     @ ''c'' @ [CHR 0xE2, CHR 0x88, CHR 0x9A, CHR 0xC2, CHR 0xA9] @ ''e''"

definition clock_glyph_p0 :: string where
  "clock_glyph_p0 = [CHR 0xEF, CHR 0xA3, CHR 0xBF, CHR 0xC3, CHR 0xBC, CHR 0xC3, CHR 0xAF, CHR 0xC3, CHR 0xAD]"

definition timer_glyph_p0 :: string where
  "timer_glyph_p0 = [CHR 0xE2, CHR 0x80, CHR 0x9A, CHR 0xC3, CHR 0xA8, CHR 0xC2, CHR 0xB1]"

definition controls_menu :: "string \<Rightarrow> string \<Rightarrow> string \<Rightarrow> string" where
  "controls_menu up dot down =
     ''Controls: '' @ up @ ''/k up '' @ dot @ '' '' @ down @ ''/j down '' @ dot @ '' b back '' @ dot
     @ '' q quit '' @ dot @ '' ENTER select''"

definition controls_page :: "string \<Rightarrow> string \<Rightarrow> string \<Rightarrow> string" where
  "controls_page up dot down =
     ''Controls: '' @ up @ ''/k up '' @ dot @ '' '' @ down @ ''/j down '' @ dot @ '' b back '' @ dot
     @ '' q quit''"

definition about_me :: "string \<Rightarrow> string" where
  "about_me employer =
     nl @ ''About Me:'' @ nl
     @ ''I'' @ [CHR 0x27] @ ''m a software developer based in France, specializing in software and mobile development but I''
     @ [CHR 0x27] @ ''m also interested in game development.'' @ nl
     @ ''I'' @ [CHR 0x27] @ ''m currently pursuing an MBA in development and management. I like to learn new languages and frameworks in my free time.'' @ nl
     @ ''I have a work-study contract at '' @ employer @ '' as a backend developer.'' @ nl"

definition education :: string where
  "education =
     nl @ ''Education:'' @ nl
     @ ''2023 - 2025 : Master degree - Fullstack developer'' @ nl
     @ ''2022 - 2023 : Bachelor degree - Web developer'' @ nl
     @ ''2020 - 2022 : BTEC Higher National Diploma - web and software development'' @ nl"

definition experience :: "string \<Rightarrow> string" where
  "experience employer =
     nl @ ''Experience:'' @ nl @ ''2022 - today : Fullstack Developer at '' @ employer @ nl"

definition contact :: string where
  "contact =
     nl @ ''Contact:'' @ nl
     @ ''Email: milan.hommet@protonmail.com'' @ nl
     @ ''LinkedIn: https://www.linkedin.com/in/milan-hommet-840414315/'' @ nl"

definition baseTableStyle :: style where
  "baseTableStyle = [BorderStyle NormalBorder, BorderForeground ''240'']"

definition list_Model_View :: "'w libs \<Rightarrow> 'w list_Model \<Rightarrow> string" where
  "list_Model_View L l = list_View L (items l) (listState l)"

text \<open>The loop over the sections in \<open>View\<close>: \<open>i\<close> is the index of the first section of the list.\<close>

fun menu_lines :: "int \<Rightarrow> int \<Rightarrow> string list \<Rightarrow> string" where
  "menu_lines c i [] = []"
| "menu_lines c i (sect # rest) =
     (if i = c then '' > '' @ sect @ nl else ''   '' @ sect @ nl) @ menu_lines c (i + 1) rest"

definition getPageContent :: "'w libs \<Rightarrow> 'w model \<Rightarrow> string" where
  "getPageContent L m =
     (if page m = ''About Me'' then about_me company
      else if page m = ''Education'' then education
      else if page m = ''Experience'' then experience company
      else if page m = ''Skills'' then
        nl @ ''Skills:'' @ nl @ nl @ Render L baseTableStyle (table_View L (skillsTable m))
      else if page m = ''Projects'' then
        (let content = list_Model_View L (reposList m)
         in if loaded m
            then content @ nl @ nl @ ''Press Enter to open the selected project in your browser.''
            else content)
      else if page m = ''Contact'' then contact
      else nl @ ''Content for '' @ page m)"

definition View :: "'w libs \<Rightarrow> 'w model \<Rightarrow> string" where
  "View L m =
     (let titleStyle = [Bold True, Foreground ''205''];
          s0 = Render L titleStyle ''Welcome to my portfolio - Milan Hommet'' @ nl @ nl;
          s1 = (if errorMsg m \<noteq> [] then s0 @ ''Error: '' @ errorMsg m @ nl
                else if page m = ''menu'' then
                  s0 @ menu_lines (cursor m) 0 (sections m)
                  @ nl @ controls_menu arrow_up bullet arrow_down @ nl
                else if loading m then
                  s0 @ ''Loading...'' @ nl @ nl
                  @ replicate (nat padding) (CHR '' '') @ progress_View L (progress m) @ nl
                else
                  s0 @ getPageContent L m
                  @ nl @ nl @ Render L [Foreground ''#888888''] (controls_page arrow_up bullet arrow_down))
      in Render L appStyle s1)"

text \<open>\<^verbatim>\<open>time.Now().Format("15:04:05")\<close>: hour, minute and second, two digits each.\<close>

definition two_digits :: "nat \<Rightarrow> string" where
  "two_digits n = [''0123456789'' ! (n div 10 mod 10), ''0123456789'' ! (n mod 10)]"

definition Format_150405 :: "Time \<Rightarrow> string" where
  "Format_150405 t = two_digits (hour t) @ '':'' @ two_digits (minute t) @ '':'' @ two_digits (second t)"

definition getPageContent_p0 :: "'w libs \<Rightarrow> 'w model_p0 \<Rightarrow> string" where
  "getPageContent_p0 L m =
     (let contentStyle = [Align Center, SetWidth (width m - 10)]
      in if page m = ''About Me'' then Render L contentStyle (about_me company_p0)
         else if page m = ''Education'' then Render L contentStyle education
         else if page m = ''Experience'' then Render L contentStyle (experience company_p0)
         else if page m = ''Skills'' then
           (let tableContent = nl @ ''Skills:'' @ nl @ nl
                                @ Render L baseTableStyle (table_View L (skillsTable m))
            in Render L contentStyle tableContent)
         else if page m = ''Projects'' then
           (let content = list_Model_View L (reposList m)
            in if loaded m
               then content @ nl @ nl @ ''Press Enter to open the selected project in your browser.''
               else content)
         else if page m = ''Contact'' then Render L contentStyle contact
         else Render L contentStyle (nl @ ''Content for '' @ page m))"

text \<open>
  \<open>View\<close> of part 0. It reads the wall clock (\<^verbatim>\<open>time.Now()\<close>, the argument \<open>now\<close>) for
  the footer. \<^verbatim>\<open>nameArt\<close> is declared in a file of the package that is not among the
  sources; it is the argument \<open>nameArt\<close>.
\<close>

definition View_p0 :: "'w libs \<Rightarrow> string \<Rightarrow> Time \<Rightarrow> 'w model_p0 \<Rightarrow> string" where
  "View_p0 L nameArt now m =
     (if showSplash m then
        (let mainStyle = [SetWidth (width m), SetHeight (height m), Align Center, AlignVertical Center];
             containerStyle = [SetWidth 80, Align Center, Border NormalBorder,
                               BorderForeground ''#8A2BE2'', Padding [1, 2]];
             nameStyle = [Foreground ''#4287f5'', Align Center, SetWidth 76];
             titleStyle = [Bold True, Foreground ''#ff66c4'', Align Center, SetWidth 76, MarginTop 1];
             artBox = Render L nameStyle nameArt;
             title = Render L titleStyle ''Milan Hommet - Fullstack Developer'';
             content = artBox @ nl @ title;
             containerContent = Render L containerStyle content
         in Render L mainStyle containerContent)
      else
        (let mainStyle = [SetWidth (width m), SetHeight (height m - 4), Align Center,
                          AlignVertical Center];
             innerStyle = [SetWidth (width m - 4), Align Center];
             headerContainerStyle = [SetWidth (width m), BorderBottom True, BorderStyle RoundedBorder,
                                     BorderForeground ''#8A2BE2''];
             nameStyle = [Foreground ''#4287f5'', Bold True, PaddingLeft 4, SetWidth 30];
             jobStyle = [Foreground ''#ff66c4'', Bold True, PaddingRight 4, Align Right, SetWidth 30];
             leftContent = Render L nameStyle ''Milan Hommet'';
             rightContent = Render L jobStyle ''Fullstack Developer'';
             header = Render L headerContainerStyle
                        (JoinHorizontal L Center
                           [leftContent,
                            Render L [SetWidth (width m - lipgloss_Width L leftContent
                                                 - lipgloss_Width L rightContent)] [],
                            rightContent]);
             footerStyle = [SetWidth (width m), BorderTop True, BorderStyle RoundedBorder,
                            BorderForeground ''#8A2BE2''];
             clockText = Render L [Foreground ''#888888'', PaddingLeft 4, SetWidth 20]
                           (clock_glyph_p0 @ '' '' @ Format_150405 now);
             timerText = Render L [Foreground ''#888888'', Align Right, PaddingRight 4, SetWidth 20]
                           (timer_glyph_p0 @ '' '' @ stopwatch_View L (stopwatch m));
             footer = Render L footerStyle
                        (JoinHorizontal L Center
                           [clockText,
                            Render L [SetWidth (width m - lipgloss_Width L clockText
                                                 - lipgloss_Width L timerText)] [],
                            timerText]);
             titleStyle = [Bold True, Foreground ''205'', Align Center, SetWidth (width m - 4)];
             inner = Render L titleStyle ''Welcome to my portfolio'' @ nl @ nl;
             content =
               (if errorMsg m \<noteq> [] then ''Error: '' @ errorMsg m @ nl
                else if page m = ''menu'' then
                  (let menuStyle = [Align Center, SetWidth (width m - 4)];
                       menuContent = menu_lines (cursor m) 0 (sections m);
                       controlsStyle = [Align Center, SetWidth (width m - 4)]
                   in Render L menuStyle menuContent @ nl
                      @ Render L controlsStyle (controls_menu arrow_up_p0 bullet_p0 arrow_down_p0))
                else if loading m then
                  (let loadingStyle = [Align Center, SetWidth (width m - 4)]
                   in Render L loadingStyle ''Loading...'' @ nl @ nl
                      @ progress_View L (progress m) @ nl)
                else
                  (let controlsStyle = [Foreground ''#888888'', Align Center, SetWidth (width m - 4)]
                   in getPageContent_p0 L m @ nl @ nl
                      @ Render L controlsStyle (controls_page arrow_up_p0 bullet_p0 arrow_down_p0)))
         in header @ nl @ Render L mainStyle (Render L innerStyle (inner @ content)) @ nl @ footer))"

subsection \<open>A concrete library\<close>

text \<open>
  To evaluate the model on concrete inputs the record \<open>libs\<close> needs a value. In \<open>plain\<close>
  the opaque state of a widget is an integer: for the list it is the cursor index, which
  the cursor keys move inside the items and which storing new items leaves where it was;
  the other widgets ignore what they are sent, and rendering returns the text undecorated.
\<close>

definition plain :: "int libs" where
  "plain =
     \<lparr>Render = (\<lambda>st s. s),
      GetFrameSize = (\<lambda>st. (4, 2)),
      lipgloss_Width = (\<lambda>s. int (length s)),
      JoinHorizontal = (\<lambda>p ss. concat ss),
      progress_defaultWidth = 40,
      progress_init = 0,
      progress_animate = (\<lambda>v s. (s, 0)),
      progress_frame = (\<lambda>f v s. (s, 0)),
      progress_View = (\<lambda>p. []),
      list_init = (\<lambda>w h. 0),
      list_Index = (\<lambda>s. s),
      list_CursorUp = (\<lambda>its s. max 0 (s - 1)),
      list_CursorDown = (\<lambda>its s. if s + 1 < int (length its) then s + 1 else s),
      list_SetSize = (\<lambda>w h its s. s),
      list_updatePagination = (\<lambda>its s. s),
      list_NewStatusMessage = (\<lambda>t s. (s, 0)),
      list_Update = (\<lambda>msg its s. (s, 0)),
      list_View = (\<lambda>its s. concat (map title its)),
      table_New = (\<lambda>cols rows focused h. 0),
      table_MoveUp = (\<lambda>n s. s),
      table_MoveDown = (\<lambda>n s. s),
      table_SetWidth = (\<lambda>n s. s),
      table_SetHeight = (\<lambda>n s. s),
      table_Update = (\<lambda>msg s. (s, 0)),
      table_View = (\<lambda>s. []),
      stopwatch_New = 0,
      stopwatch_Init = (\<lambda>s. 0),
      stopwatch_Update = (\<lambda>msg s. (s, 0)),
      stopwatch_View = (\<lambda>s. [])\<rparr>"

subsection \<open>Predicates of the statements\<close>

definition move_key :: "string \<Rightarrow> bool" where
  "move_key k = (k = ''up'' \<or> k = ''k'' \<or> k = ''down'' \<or> k = ''j'')"

text \<open>The page is the menu and the cursor is on one of its entries.\<close>

definition on_menu_in_range :: "('w, 'z) model_scheme \<Rightarrow> bool" where
  "on_menu_in_range m =
     (page m = ''menu'' \<and> 0 \<le> cursor m \<and> cursor m < int (length (sections m)))"

text \<open>Where a move key leaves the cursor of the menu: one step, and no step at either end.\<close>

definition moved :: "string \<Rightarrow> ('w, 'z) model_scheme \<Rightarrow> int" where
  "moved k m =
     (if k = ''up'' \<or> k = ''k'' then (if cursor m > 0 then cursor m - 1 else cursor m)
      else (if cursor m < int (length (sections m)) - 1 then cursor m + 1 else cursor m))"

definition loaded_not_loading :: "('w, 'z) model_scheme \<Rightarrow> bool" where
  "loaded_not_loading m = (loaded m \<longrightarrow> \<not> loading m)"

section \<open>Properties\<close>

lemma repo_items_eq:
  "repo_items acc repos =
     acc @ map (\<lambda>r. \<lparr>title = Name r, description = Description r, url = HTMLURL r\<rparr>) repos"
  by (induction repos arbitrary: acc) simp_all

subsection \<open>The key switch, case by case\<close>

lemma on_key_q: "on_key L rest m ''q'' = Inr (m, tea_Quit)"
  by (simp add: on_key_def)

lemma on_key_up:
  "k = ''up'' \<or> k = ''k'' \<Longrightarrow>
     on_key L rest m k =
       rest (if page m = ''menu'' then (if cursor m > 0 then m\<lparr>cursor := cursor m - 1\<rparr> else m)
             else if page m = ''Projects'' then m\<lparr>reposList := CursorUp L (reposList m)\<rparr>
             else if page m = ''Skills'' then m\<lparr>skillsTable := table_MoveUp L 1 (skillsTable m)\<rparr>
             else m)"
  by (auto simp: on_key_def)

lemma on_key_down:
  "k = ''down'' \<or> k = ''j'' \<Longrightarrow>
     on_key L rest m k =
       rest (if page m = ''menu'' then
               (if cursor m < int (length (sections m)) - 1 then m\<lparr>cursor := cursor m + 1\<rparr> else m)
             else if page m = ''Projects'' then m\<lparr>reposList := CursorDown L (reposList m)\<rparr>
             else if page m = ''Skills'' then m\<lparr>skillsTable := table_MoveDown L 1 (skillsTable m)\<rparr>
             else m)"
  by (auto simp: on_key_def)

lemma on_key_enter_menu:
  "page m = ''menu'' \<Longrightarrow>
     on_key L rest m ''enter'' =
       (if cursor m < 0 \<or> int (length (sections m)) \<le> cursor m then Inl index_out_of_range
        else if sections m ! nat (cursor m) = ''Exit'' then Inr (m, tea_Quit)
        else Inr (m\<lparr>loading := True, page := sections m ! nat (cursor m), loaded := False,
                     progress := progress_New L\<rparr>,
                  if sections m ! nat (cursor m) = ''Projects'' then fetchGitHubRepos else tickCmd))"
  by (simp add: on_key_def Let_def)

lemma on_key_enter_projects:
  "page m = ''Projects'' \<Longrightarrow> loaded m \<Longrightarrow>
     on_key L rest m ''enter'' =
       (if length (Items (reposList m)) > 0 then
          (case SelectedItem L (reposList m) of
             None \<Rightarrow> Inl interface_conversion
           | Some selected \<Rightarrow>
               if url selected \<noteq> [] then Inr (m, openURL (url selected)) else rest m)
        else rest m)"
  by (simp add: on_key_def)

lemma on_key_enter_else:
  "page m \<noteq> ''menu'' \<Longrightarrow> \<not> (page m = ''Projects'' \<and> loaded m) \<Longrightarrow>
     on_key L rest m ''enter'' = rest m"
  by (auto simp: on_key_def)

lemma on_key_b:
  "on_key L rest m ''b'' =
     rest (if page m \<noteq> ''menu'' then m\<lparr>page := ''menu'', cursor := 0, loaded := False\<rparr> else m)"
  by (simp add: on_key_def)

lemma on_key_other:
  "k \<noteq> ''q'' \<Longrightarrow> k \<noteq> ''up'' \<Longrightarrow> k \<noteq> ''k'' \<Longrightarrow> k \<noteq> ''down'' \<Longrightarrow> k \<noteq> ''j'' \<Longrightarrow>
   k \<noteq> ''enter'' \<Longrightarrow> k \<noteq> ''b'' \<Longrightarrow> on_key L rest m k = rest m"
  by (simp add: on_key_def)


lemma key_cases:
  obtains "k = ''q''" | "k = ''up'' \<or> k = ''k''" | "k = ''down'' \<or> k = ''j''" | "k = ''enter''"
    | "k = ''b''"
    | "k \<noteq> ''q''" "k \<noteq> ''up''" "k \<noteq> ''k''" "k \<noteq> ''down''" "k \<noteq> ''j''" "k \<noteq> ''enter''" "k \<noteq> ''b''"
  by blast

lemma on_key_cases:
  assumes res: "on_key L rest m k = Inr (m', c)"
  obtains (quit) "m' = m" "c = tea_Quit"
    | (launch) sel where "page m = ''Projects''" "loaded m" "SelectedItem L (reposList m) = Some sel"
        "Items (reposList m) \<noteq> []" "url sel \<noteq> []" "m' = m" "c = openURL (url sel)" "k = ''enter''"
    | (entered) "page m = ''menu''" "0 \<le> cursor m" "cursor m < int (length (sections m))"
        "sections m ! nat (cursor m) \<noteq> ''Exit''"
        "m' = m\<lparr>loading := True, page := sections m ! nat (cursor m), loaded := False,
                   progress := progress_New L\<rparr>"
        "c = (if sections m ! nat (cursor m) = ''Projects'' then fetchGitHubRepos else tickCmd)"
        "k = ''enter''"
    | (moved) cur where "page m = ''menu''" "rest (m\<lparr>cursor := cur\<rparr>) = Inr (m', c)"
        "0 \<le> cursor m \<and> cursor m < int (length (sections m))
           \<longrightarrow> 0 \<le> cur \<and> cur < int (length (sections m))"
    | (list_moved) l where "page m = ''Projects''" "rest (m\<lparr>reposList := l\<rparr>) = Inr (m', c)"
        "items l = items (reposList m)"
    | (table_moved) t where "page m = ''Skills''" "rest (m\<lparr>skillsTable := t\<rparr>) = Inr (m', c)"
    | (go_back) "page m \<noteq> ''menu''" "rest (m\<lparr>page := ''menu'', cursor := 0, loaded := False\<rparr>) = Inr (m', c)"
        "k = ''b''"
    | (pass) "rest m = Inr (m', c)"
proof (cases k rule: key_cases)
  case 1
  with res have "m' = m" "c = tea_Quit" by (simp_all add: on_key_q)
  then show ?thesis by (rule quit)
next
  case 2
  note eq = on_key_up [OF 2, of L rest m]
  show ?thesis
  proof (cases "page m = ''menu''")
    case True
    let ?cur = "if cursor m > 0 then cursor m - 1 else cursor m"
    from res eq True have "rest (m\<lparr>cursor := ?cur\<rparr>) = Inr (m', c)"
      by (simp split: if_splits)
    then show ?thesis by (rule moved [OF True]) auto
  next
    case nmenu: False
    show ?thesis
    proof (cases "page m = ''Projects''")
      case True
      from res eq nmenu True have "rest (m\<lparr>reposList := CursorUp L (reposList m)\<rparr>) = Inr (m', c)"
        by simp
      then show ?thesis by (rule list_moved [OF True]) (simp add: CursorUp_def)
    next
      case nproj: False
      show ?thesis
      proof (cases "page m = ''Skills''")
        case True
        from res eq nmenu nproj True
        have "rest (m\<lparr>skillsTable := table_MoveUp L 1 (skillsTable m)\<rparr>) = Inr (m', c)" by simp
        then show ?thesis by (rule table_moved [OF True])
      next
        case False
        from res eq nmenu nproj False have "rest m = Inr (m', c)" by simp
        then show ?thesis by (rule pass)
      qed
    qed
  qed
next
  case 3
  note eq = on_key_down [OF 3, of L rest m]
  show ?thesis
  proof (cases "page m = ''menu''")
    case True
    let ?cur = "if cursor m < int (length (sections m)) - 1 then cursor m + 1 else cursor m"
    from res eq True have "rest (m\<lparr>cursor := ?cur\<rparr>) = Inr (m', c)"
      by (simp split: if_splits)
    then show ?thesis by (rule moved [OF True]) auto
  next
    case nmenu: False
    show ?thesis
    proof (cases "page m = ''Projects''")
      case True
      from res eq nmenu True have "rest (m\<lparr>reposList := CursorDown L (reposList m)\<rparr>) = Inr (m', c)"
        by simp
      then show ?thesis by (rule list_moved [OF True]) (simp add: CursorDown_def)
    next
      case nproj: False
      show ?thesis
      proof (cases "page m = ''Skills''")
        case True
        from res eq nmenu nproj True
        have "rest (m\<lparr>skillsTable := table_MoveDown L 1 (skillsTable m)\<rparr>) = Inr (m', c)" by simp
        then show ?thesis by (rule table_moved [OF True])
      next
        case False
        from res eq nmenu nproj False have "rest m = Inr (m', c)" by simp
        then show ?thesis by (rule pass)
      qed
    qed
  qed
next
  case 4
  show ?thesis
  proof (cases "page m = ''menu''")
    case True
    note eq = on_key_enter_menu [OF True, of L rest]
    show ?thesis
    proof (cases "cursor m < 0 \<or> int (length (sections m)) \<le> cursor m")
      case True
      with res eq 4 show ?thesis by simp
    next
      case inr: False
      show ?thesis
      proof (cases "sections m ! nat (cursor m) = ''Exit''")
        case True
        with res eq 4 inr have "m' = m" "c = tea_Quit" by simp_all
        then show ?thesis by (rule quit)
      next
        case False
        from res eq 4 inr False
        have "m' = m\<lparr>loading := True, page := sections m ! nat (cursor m), loaded := False,
                        progress := progress_New L\<rparr>"
          and "c = (if sections m ! nat (cursor m) = ''Projects'' then fetchGitHubRepos else tickCmd)"
          by simp_all
        with inr False 4 show ?thesis by (intro entered [OF True]) simp_all
      qed
    qed
  next
    case False
    show ?thesis
    proof (cases "page m = ''Projects'' \<and> loaded m")
      case True
      then have pg: "page m = ''Projects''" and ld: "loaded m" by simp_all
      note eq = on_key_enter_projects [OF pg ld, of L rest]
      show ?thesis
      proof (cases "Items (reposList m) = []")
        case True
        with res eq 4 have "rest m = Inr (m', c)" by simp
        then show ?thesis by (rule pass)
      next
        case ne: False
        show ?thesis
        proof (cases "SelectedItem L (reposList m)")
          case None
          with res eq 4 ne show ?thesis by simp
        next
          case (Some sel)
          show ?thesis
          proof (cases "url sel = []")
            case True
            with res eq 4 ne Some have "rest m = Inr (m', c)" by simp
            then show ?thesis by (rule pass)
          next
            case False
            with res eq 4 ne Some have "m' = m" "c = openURL (url sel)" by simp_all
            with False ne Some 4 show ?thesis by (intro launch [OF pg ld]) simp_all
          qed
        qed
      qed
    next
      case nproj: False
      from res on_key_enter_else [OF False nproj, of L rest] 4 have "rest m = Inr (m', c)" by simp
      then show ?thesis by (rule pass)
    qed
  qed
next
  case 5
  note eq = on_key_b [of L rest m]
  show ?thesis
  proof (cases "page m = ''menu''")
    case True
    with res eq 5 have "rest m = Inr (m', c)" by simp
    then show ?thesis by (rule pass)
  next
    case False
    with res eq 5 have "rest (m\<lparr>page := ''menu'', cursor := 0, loaded := False\<rparr>) = Inr (m', c)"
      by simp
    with False 5 show ?thesis by (intro go_back) simp_all
  qed
next
  case 6
  with res on_key_other [of k L rest m] have "rest m = Inr (m', c)" by simp
  then show ?thesis by (rule pass)
qed

subsection \<open>Moving the cursor of the menu\<close>

lemma Update_move_menu:
  "move_key k \<Longrightarrow> page m = ''menu'' \<Longrightarrow>
     Update L m (KeyMsg k) = Inr (m\<lparr>cursor := moved k m\<rparr>, cmd_nil)"
  by (auto simp: move_key_def moved_def Update_def on_key_def update_page_def)

lemma Update_p0_move_menu:
  "move_key k \<Longrightarrow> page m = ''menu'' \<Longrightarrow> \<not> showSplash m \<Longrightarrow>
     Update_p0 L m (KeyMsg k)
       = Inr (m\<lparr>cursor := moved k m, stopwatch := fst (stopwatch_Update L (KeyMsg k) (stopwatch m))\<rparr>,
              tea_Batch [lib_cmd (snd (stopwatch_Update L (KeyMsg k) (stopwatch m))), clockCmd])"
  by (auto simp: move_key_def moved_def Update_p0_def on_key_def update_page_p0_def split: prod.split)

lemma Update_p0_splash_key:
  "showSplash m \<Longrightarrow>
     Update_p0 L m (KeyMsg k)
       = Inr (m\<lparr>stopwatch := fst (stopwatch_Update L (KeyMsg k) (stopwatch m)), showSplash := False\<rparr>,
              cmd_nil)"
  by (simp add: Update_p0_def on_splash_def split: prod.split)

lemma moved_in_range:
  "on_menu_in_range m \<Longrightarrow> 0 \<le> moved k m \<and> moved k m < int (length (sections m))"
  by (auto simp: on_menu_in_range_def moved_def)

lemma run_moves:
  "list_all move_key ks \<Longrightarrow> on_menu_in_range m \<Longrightarrow>
     \<exists>m'. run (Update L) m (map KeyMsg ks) = Inr m' \<and> on_menu_in_range m' \<and> sections m' = sections m"
proof (induction ks arbitrary: m)
  case Nil
  then show ?case by simp
next
  case (Cons k ks)
  let ?m1 = "m\<lparr>cursor := moved k m\<rparr>"
  from Cons.prems have k: "move_key k" and ks: "list_all move_key ks"
    and pg: "page m = ''menu''" by (simp_all add: on_menu_in_range_def)
  have step: "Update L m (KeyMsg k) = Inr (?m1, cmd_nil)"
    using k pg by (rule Update_move_menu)
  have "on_menu_in_range ?m1"
    using moved_in_range [OF Cons.prems(2), of k] pg by (simp add: on_menu_in_range_def)
  from Cons.IH [OF ks this] obtain m' where
    "run (Update L) ?m1 (map KeyMsg ks) = Inr m'" "on_menu_in_range m'" "sections m' = sections ?m1"
    by blast
  with step show ?case by simp
qed

lemma run_moves_p0:
  "list_all move_key ks \<Longrightarrow> on_menu_in_range m \<Longrightarrow>
     \<exists>m'. run (Update_p0 L) m (map KeyMsg ks) = Inr m' \<and> on_menu_in_range m' \<and> sections m' = sections m"
proof (induction ks arbitrary: m)
  case Nil
  then show ?case by simp
next
  case (Cons k ks)
  from Cons.prems have k: "move_key k" and ks: "list_all move_key ks"
    and pg: "page m = ''menu''" by (simp_all add: on_menu_in_range_def)
  obtain m1 c where step: "Update_p0 L m (KeyMsg k) = Inr (m1, c)"
    and m1: "on_menu_in_range m1" "sections m1 = sections m"
  proof (cases "showSplash m")
    case True
    show ?thesis
      by (rule that [OF Update_p0_splash_key [OF True]])
         (use Cons.prems(2) in \<open>simp_all add: on_menu_in_range_def\<close>)
  next
    case False
    show ?thesis
      by (rule that [OF Update_p0_move_menu [OF k pg False]])
         (use moved_in_range [OF Cons.prems(2), of k] pg in \<open>simp_all add: on_menu_in_range_def\<close>)
  qed
  from Cons.IH [OF ks m1(1)] obtain m' where
    "run (Update_p0 L) m1 (map KeyMsg ks) = Inr m'" "on_menu_in_range m'" "sections m' = sections m1"
    by blast
  with step m1 show ?case by simp
qed

lemma cursor_after_move_p0:
  "move_key k \<Longrightarrow> page m = ''menu'' \<Longrightarrow>
     \<exists>m' c. Update_p0 L m (KeyMsg k) = Inr (m', c)
            \<and> cursor m' = (if showSplash m then cursor m else moved k m)"
  by (cases "showSplash m") (simp_all add: Update_p0_splash_key Update_p0_move_menu)

text \<open>
  C1. However many move keys (up, k, down, j) are pressed while the page is the menu, the
  cursor stays on an entry of the menu, in both variants: a run of such keys from a state
  whose cursor is between 0 and the number of sections minus 1 never panics and ends in
  such a state, still on the menu. In \<^verbatim>\<open>main.go\<close> a key moves the cursor by one, except
  that up at 0 and down at the last entry return the model as it was; in part 0 the cursor
  moves the same way once the splash screen is gone, and not at all while it shows.
\<close>

theorem menu_cursor_stays_in_range:
  assumes "list_all move_key ks"
  shows "(on_menu_in_range m \<longrightarrow>
            (\<exists>m'. run (Update L) m (map KeyMsg ks) = Inr m' \<and> on_menu_in_range m'
                  \<and> sections m' = sections m))
       \<and> (on_menu_in_range m0 \<longrightarrow>
            (\<exists>m'. run (Update_p0 L) m0 (map KeyMsg ks) = Inr m' \<and> on_menu_in_range m'
                  \<and> sections m' = sections m0))
       \<and> (page m = ''menu'' \<and> cursor m = 0 \<longrightarrow>
            Update L m (KeyMsg ''up'') = Inr (m, cmd_nil) \<and> Update L m (KeyMsg ''k'') = Inr (m, cmd_nil))
       \<and> (page m = ''menu'' \<and> cursor m = int (length (sections m)) - 1 \<longrightarrow>
            Update L m (KeyMsg ''down'') = Inr (m, cmd_nil) \<and> Update L m (KeyMsg ''j'') = Inr (m, cmd_nil))
       \<and> (page m = ''menu'' \<and> 0 < cursor m \<longrightarrow>
            Update L m (KeyMsg ''up'') = Inr (m\<lparr>cursor := cursor m - 1\<rparr>, cmd_nil))
       \<and> (page m = ''menu'' \<and> cursor m < int (length (sections m)) - 1 \<longrightarrow>
            Update L m (KeyMsg ''down'') = Inr (m\<lparr>cursor := cursor m + 1\<rparr>, cmd_nil))
       \<and> (page m0 = ''menu'' \<and> cursor m0 = 0 \<and> (k = ''up'' \<or> k = ''k'') \<longrightarrow>
            (\<exists>m' c. Update_p0 L m0 (KeyMsg k) = Inr (m', c) \<and> cursor m' = 0))
       \<and> (page m0 = ''menu'' \<and> cursor m0 = int (length (sections m0)) - 1 \<and> (k = ''down'' \<or> k = ''j'') \<longrightarrow>
            (\<exists>m' c. Update_p0 L m0 (KeyMsg k) = Inr (m', c) \<and> cursor m' = cursor m0))"
proof (intro conjI impI)
  show "\<exists>m'. run (Update L) m (map KeyMsg ks) = Inr m' \<and> on_menu_in_range m' \<and> sections m' = sections m"
    if "on_menu_in_range m"
    using assms that by (rule run_moves)
  show "\<exists>m'. run (Update_p0 L) m0 (map KeyMsg ks) = Inr m' \<and> on_menu_in_range m' \<and> sections m' = sections m0"
    if "on_menu_in_range m0"
    using assms that by (rule run_moves_p0)
  show "Update L m (KeyMsg ''up'') = Inr (m, cmd_nil)" if "page m = ''menu'' \<and> cursor m = 0"
    using that Update_move_menu [of "''up''" m L] by (simp add: move_key_def moved_def)
  show "Update L m (KeyMsg ''k'') = Inr (m, cmd_nil)" if "page m = ''menu'' \<and> cursor m = 0"
    using that Update_move_menu [of "''k''" m L] by (simp add: move_key_def moved_def)
  show "Update L m (KeyMsg ''down'') = Inr (m, cmd_nil)"
    if "page m = ''menu'' \<and> cursor m = int (length (sections m)) - 1"
    using that Update_move_menu [of "''down''" m L] by (simp add: move_key_def moved_def)
  show "Update L m (KeyMsg ''j'') = Inr (m, cmd_nil)"
    if "page m = ''menu'' \<and> cursor m = int (length (sections m)) - 1"
    using that Update_move_menu [of "''j''" m L] by (simp add: move_key_def moved_def)
  show "Update L m (KeyMsg ''up'') = Inr (m\<lparr>cursor := cursor m - 1\<rparr>, cmd_nil)"
    if "page m = ''menu'' \<and> 0 < cursor m"
    using that Update_move_menu [of "''up''" m L] by (simp add: move_key_def moved_def)
  show "Update L m (KeyMsg ''down'') = Inr (m\<lparr>cursor := cursor m + 1\<rparr>, cmd_nil)"
    if "page m = ''menu'' \<and> cursor m < int (length (sections m)) - 1"
    using that Update_move_menu [of "''down''" m L] by (simp add: move_key_def moved_def)
  show "\<exists>m' c. Update_p0 L m0 (KeyMsg k) = Inr (m', c) \<and> cursor m' = 0"
    if "page m0 = ''menu'' \<and> cursor m0 = 0 \<and> (k = ''up'' \<or> k = ''k'')"
    using that cursor_after_move_p0 [of k m0 L] by (auto simp: move_key_def moved_def)
  show "\<exists>m' c. Update_p0 L m0 (KeyMsg k) = Inr (m', c) \<and> cursor m' = cursor m0"
    if "page m0 = ''menu'' \<and> cursor m0 = int (length (sections m0)) - 1 \<and> (k = ''down'' \<or> k = ''j'')"
    using that cursor_after_move_p0 [of k m0 L] by (auto simp: move_key_def moved_def)
qed

theorem menu_cursor_stays_in_range_witness:
  "list_all move_key [''down'', ''j'', ''up'', ''up'', ''k'']
   \<and> on_menu_in_range (initialModel plain)
   \<and> run (Update plain) (initialModel plain) (map KeyMsg [''down'', ''j'', ''up'', ''up'', ''k''])
       = Inr (initialModel plain)
   \<and> on_menu_in_range (initialModel_p0 plain)
   \<and> run (Update_p0 plain) (initialModel_p0 plain) (map KeyMsg [''down'', ''j'', ''up'', ''up'', ''k''])
       = Inr ((initialModel_p0 plain)\<lparr>showSplash := False\<rparr>)
   \<and> Update plain ((initialModel plain)\<lparr>cursor := 6\<rparr>) (KeyMsg ''down'')
       = Inr ((initialModel plain)\<lparr>cursor := 6\<rparr>, cmd_nil)
   \<and> Update plain ((initialModel plain)\<lparr>cursor := 6\<rparr>) (KeyMsg ''up'')
       = Inr ((initialModel plain)\<lparr>cursor := 5\<rparr>, cmd_nil)"
  using menu_cursor_stays_in_range
          [of "[''down'', ''j'', ''up'', ''up'', ''k'']" "initialModel plain" plain
              "initialModel_p0 plain" "''up''"]
        menu_cursor_stays_in_range
          [of "[''down'', ''j'', ''up'', ''up'', ''k'']" "(initialModel plain)\<lparr>cursor := 6\<rparr>" plain
              "initialModel_p0 plain" "''down''"]
  by (simp add: move_key_def on_menu_in_range_def initialModel_def initialModel_p0_def
        Update_def Update_p0_def on_key_def on_splash_def update_page_def update_page_p0_def plain_def)


end
